theory Spec2Isabelle
  imports Main
begin

section \<open>The DevHub API example: data model\<close>

text \<open>
  The source is one Python module, \<^verbatim>\<open>snippets/code/python/fastapi-basic.py\<close>: a FastAPI
  application object, an \<^verbatim>\<open>HTTPBearer\<close> security scheme, two pydantic models, the
  dependency \<^verbatim>\<open>verify_token\<close> and four route handlers.

  A Python \<^verbatim>\<open>str\<close> is modelled as a \<open>string\<close>; one \<open>char\<close> stands for one character of
  the Python string, so that \<open>length\<close> is Python's \<^verbatim>\<open>len\<close>. A Python \<^verbatim>\<open>int\<close> is an \<open>int\<close>.
  A Python \<^verbatim>\<open>dict\<close> literal is an association list in insertion order.
\<close>

subsection \<open>HTTP exceptions and status constants\<close>

text \<open>
  \<^verbatim>\<open>HTTPException(status_code, detail, headers=None)\<close>: the exception the module raises.
  The two status constants come from \<^verbatim>\<open>fastapi.status\<close>.
\<close>

record HTTPException =
  status_code :: int
  detail :: string
  headers :: "(string \<times> string) list option"

definition HTTP_400_BAD_REQUEST :: int where
  "HTTP_400_BAD_REQUEST = 400"

definition HTTP_401_UNAUTHORIZED :: int where
  "HTTP_401_UNAUTHORIZED = 401"

text \<open>
  \<^verbatim>\<open>HTTPAuthorizationCredentials\<close>: what the \<^verbatim>\<open>HTTPBearer\<close> scheme hands to a dependency,
  the scheme and the token of the Authorization header.
\<close>

record HTTPAuthorizationCredentials =
  scheme :: string
  credentials :: string

subsection \<open>The pydantic models\<close>

text \<open>
  \<^verbatim>\<open>UserCreate\<close> and \<^verbatim>\<open>UserResponse\<close> share field names; the record fields carry a
  prefix (\<open>uc_\<close>, \<open>ur_\<close>) to keep them apart.
\<close>

record UserCreate =
  uc_username :: string
  uc_email :: string

record UserResponse =
  ur_id :: int
  ur_username :: string
  ur_email :: string

subsection \<open>Logging\<close>

text \<open>
  \<^verbatim>\<open>logging.basicConfig(level=logging.INFO)\<close> and a module logger. The only state a handler
  touches is the log: an append-only list of records, passed in and returned.
\<close>

datatype log_level = DEBUG | INFO | WARNING | ERROR | CRITICAL

type_synonym log_record = "log_level \<times> string"

type_synonym log = "log_record list"

fun level_no :: "log_level \<Rightarrow> nat" where
  "level_no DEBUG = 10"
| "level_no INFO = 20"
| "level_no WARNING = 30"
| "level_no ERROR = 40"
| "level_no CRITICAL = 50"

definition basicConfig_level :: log_level where
  "basicConfig_level = INFO"

definition logger_info :: "string \<Rightarrow> log \<Rightarrow> log" where
  "logger_info msg lg =
     (if level_no basicConfig_level \<le> level_no INFO then lg @ [(INFO, msg)] else lg)"

section \<open>The authentication dependency\<close>

text \<open>
  Line 49: \<^verbatim>\<open>if not token or token != "valid-token"\<close>. For a string, \<^verbatim>\<open>not token\<close> holds
  exactly for the empty string.
\<close>

definition verify_token_guard :: "string \<Rightarrow> bool" where
  "verify_token_guard token = (token = [] \<or> token \<noteq> ''valid-token'')"

definition verify_token :: "HTTPAuthorizationCredentials \<Rightarrow> HTTPException + string" where
  "verify_token creds =
     (let token = credentials creds in
      if verify_token_guard token then
        Inl \<lparr>status_code = HTTP_401_UNAUTHORIZED,
             detail = ''Invalid authentication credentials'',
             headers = Some [(''WWW-Authenticate'', ''Bearer'')]\<rparr>
      else Inr token)"

text \<open>
  The guard as the specification words it: a single comparison with the hard-coded
  token.
\<close>

definition simple_guard :: "string \<Rightarrow> bool" where
  "simple_guard token = (token \<noteq> ''valid-token'')"

section \<open>The route handlers\<close>

definition root :: "(string \<times> string) list" where
  "root = [(''message'', ''Welcome to DevHub API'')]"

definition health_check :: "(string \<times> string) list" where
  "health_check = [(''status'', ''healthy''), (''service'', ''devhub-api'')]"

definition create_user :: "UserCreate \<Rightarrow> string \<Rightarrow> log \<Rightarrow> log \<times> UserResponse" where
  "create_user user token lg =
     (let lg' = logger_info (''Creating user: '' @ uc_username user) lg in
      (lg', \<lparr>ur_id = 1, ur_username = uc_username user, ur_email = uc_email user\<rparr>))"

definition get_user :: "int \<Rightarrow> string \<Rightarrow> HTTPException + UserResponse" where
  "get_user user_id token =
     (if user_id \<le> 0 then
        Inl \<lparr>status_code = HTTP_400_BAD_REQUEST, detail = ''Invalid user ID'', headers = None\<rparr>
      else
        Inr \<lparr>ur_id = user_id, ur_username = ''john_doe'', ur_email = ''john@example.com''\<rparr>)"

section \<open>Validation of the request body\<close>

subsection \<open>The pattern of the email field\<close>

text \<open>
  Line 38 gives the email field the pattern \<^verbatim>\<open>^[^@]+@[^@]+\.[^@]+$\<close>, which pydantic hands
  to \<^verbatim>\<open>re.match\<close>. The pattern is a sequence of items: a single character or a
  one-or-more repetition of a one-character class (a literal, or every character but
  one), and the two anchors. \<^verbatim>\<open>re.match\<close> tries the pattern at the start of the string
  and does not ask that the whole string is consumed; \<^verbatim>\<open>^\<close> holds at the start only;
  \<^verbatim>\<open>$\<close> holds at the end of the string and just before a newline that ends it. A
  negated class matches the newline as well.
\<close>

datatype atom = Lit char | NotLit char

datatype item = One atom | Many1 atom | Bol | Eol

fun atom_ok :: "atom \<Rightarrow> char \<Rightarrow> bool" where
  "atom_ok (Lit a) c = (c = a)"
| "atom_ok (NotLit a) c = (c \<noteq> a)"

definition newline :: char where
  "newline = CHR 0x0A"

text \<open>
  The flag says whether the matcher still stands at the start of the string. The
  repetition tries the longer match first, as the backtracking matcher does; the result
  says whether some way of matching exists.
\<close>

fun match_items :: "item list \<Rightarrow> bool \<Rightarrow> string \<Rightarrow> bool" where
  "match_items [] at_start s = True"
| "match_items (Bol # items) at_start s = (at_start \<and> match_items items at_start s)"
| "match_items (Eol # items) at_start s =
     ((s = [] \<or> s = [newline]) \<and> match_items items at_start s)"
| "match_items (One a # items) at_start [] = False"
| "match_items (One a # items) at_start (c # cs) =
     (atom_ok a c \<and> match_items items False cs)"
| "match_items (Many1 a # items) at_start [] = False"
| "match_items (Many1 a # items) at_start (c # cs) =
     (atom_ok a c \<and> (match_items (Many1 a # items) False cs \<or> match_items items False cs))"

definition re_match :: "item list \<Rightarrow> string \<Rightarrow> bool" where
  "re_match pattern s = match_items pattern True s"

definition email_regex :: "item list" where
  "email_regex =
     [Bol, Many1 (NotLit CHR ''@''), One (Lit CHR ''@''), Many1 (NotLit CHR ''@''),
      One (Lit CHR ''.''), Many1 (NotLit CHR ''@''), Eol]"

subsection \<open>Field constraints\<close>

text \<open>
  \<^verbatim>\<open>Field(..., min_length=, max_length=, regex=)\<close>: the constraints a string field can
  carry. The ellipsis makes the field required. A field reports the first constraint it
  breaks: the length bounds before the pattern.
\<close>

record FieldInfo =
  min_length :: "nat option"
  max_length :: "nat option"
  regex :: "item list option"


datatype error_type = Missing | Min_length nat | Max_length nat | Str_regex

type_synonym validation_error = "string \<times> error_type"

definition too_short :: "FieldInfo \<Rightarrow> string \<Rightarrow> bool" where
  "too_short f v = (case min_length f of None \<Rightarrow> False | Some n \<Rightarrow> length v < n)"

definition too_long :: "FieldInfo \<Rightarrow> string \<Rightarrow> bool" where
  "too_long f v = (case max_length f of None \<Rightarrow> False | Some n \<Rightarrow> n < length v)"

definition regex_fails :: "FieldInfo \<Rightarrow> string \<Rightarrow> bool" where
  "regex_fails f v = (case regex f of None \<Rightarrow> False | Some p \<Rightarrow> \<not> re_match p v)"

definition validate_str :: "string \<Rightarrow> FieldInfo \<Rightarrow> string \<Rightarrow> validation_error list" where
  "validate_str name f v =
     (if too_short f v then [(name, Min_length (case min_length f of None \<Rightarrow> 0 | Some n \<Rightarrow> n))]
      else if too_long f v then [(name, Max_length (case max_length f of None \<Rightarrow> 0 | Some n \<Rightarrow> n))]
      else if regex_fails f v then [(name, Str_regex)]
      else [])"

subsection \<open>The two models\<close>


definition username_field :: FieldInfo where
  "username_field = \<lparr>min_length = Some 3, max_length = Some 50, regex = None\<rparr>"

definition email_field :: FieldInfo where
  "email_field = \<lparr>min_length = None, max_length = None, regex = Some email_regex\<rparr>"





text \<open>
  Validation of a body whose two fields are strings, the type both are declared with: the
  errors of all fields are collected, and the model is built when there is none.
\<close>

definition UserCreate_validate :: "string \<Rightarrow> string \<Rightarrow> validation_error list + UserCreate" where
  "UserCreate_validate username email =
     (case validate_str ''username'' username_field username @
           validate_str ''email'' email_field email of
        [] \<Rightarrow> Inr \<lparr>uc_username = username, uc_email = email\<rparr>
      | e # es \<Rightarrow> Inl (e # es))"

section \<open>The application\<close>

subsection \<open>Routes\<close>

text \<open>
  The application object of lines 15 to 21, with the keywords the module passes. The
  two documentation addresses are given explicitly; the framework serves its
  documentation pages there. Routes the framework would add from defaults that the
  module does not mention are not part of the model.
\<close>

record FastAPI =
  title :: string
  description :: string
  version :: string
  docs_url :: "string option"
  redoc_url :: "string option"

definition app_settings :: FastAPI where
  "app_settings =
     \<lparr>title = ''DevHub API'', description = ''Secure FastAPI application example'',
      version = ''1.0.0'', docs_url = Some ''/docs'', redoc_url = Some ''/redoc''\<rparr>"

datatype http_method = GET | POST | PUT | DELETE | PATCH | HEAD | OPTIONS

datatype endpoint = Root | Health_check | Create_user | Get_user | Swagger_ui | Redoc

type_synonym route = "http_method \<times> string \<times> endpoint"

definition documentation_routes :: "FastAPI \<Rightarrow> route list" where
  "documentation_routes settings =
     (case docs_url settings of None \<Rightarrow> [] | Some u \<Rightarrow> [(GET, u, Swagger_ui)]) @
     (case redoc_url settings of None \<Rightarrow> [] | Some u \<Rightarrow> [(GET, u, Redoc)])"

text \<open>The routes of the four decorators, lines 58, 62, 66 and 79, in that order.\<close>

definition decorated_routes :: "route list" where
  "decorated_routes =
     [(GET, ''/'', Root),
      (GET, ''/health'', Health_check),
      (POST, ''/users'', Create_user),
      (GET, ''/users/{user_id}'', Get_user)]"

definition app_routes :: "route list" where
  "app_routes = documentation_routes app_settings @ decorated_routes"

definition route_key :: "route \<Rightarrow> http_method \<times> string" where
  "route_key r = (fst r, fst (snd r))"

subsection \<open>Requests and responses\<close>

text \<open>
  A request as the framework presents it to a route: the method, the path template the
  address matches, the headers, what \<^verbatim>\<open>HTTPBearer\<close> read from the Authorization header
  (\<open>None\<close> when it found no bearer credentials), the converted path parameter and the two
  fields of the JSON body, where the request has them.

  A response is the value a handler returned, an \<^verbatim>\<open>HTTPException\<close> the module raised
  (answered with its status code, detail and headers), or a rejection by the framework
  itself.

  What the framework does before a route sees the request is outside the model: reading
  the address and the JSON text of the body, and converting the raw values to the declared
  types. So is the CORS middleware of lines 27 to 33, which adds headers to a response and
  answers preflight requests, and the server loop of lines 97 to 104.
\<close>

record request =
  req_method :: http_method
  req_path :: string
  req_headers :: "(string \<times> string) list"
  req_credentials :: "HTTPAuthorizationCredentials option"
  req_user_id :: "int option"
  req_body :: "(string \<times> string) option"

datatype content = Dict "(string \<times> string) list" | Model UserResponse | Documentation endpoint

datatype rejection = Not_authenticated | Request_validation "validation_error list" | Not_found

datatype response = Returned content | Raised HTTPException | Rejected rejection

subsection \<open>Dependencies\<close>

text \<open>
  \<^verbatim>\<open>token: str = Depends(verify_token)\<close>, with \<^verbatim>\<open>verify_token\<close> itself depending on the
  \<^verbatim>\<open>HTTPBearer\<close> scheme: the framework solves the dependencies before it validates the
  other parameters and before it calls the handler, and an exception raised by a
  dependency is the response. The continuation \<open>body\<close> is the rest of the route.
\<close>

definition security :: "request \<Rightarrow> rejection + HTTPAuthorizationCredentials" where
  "security req = (case req_credentials req of None \<Rightarrow> Inl Not_authenticated | Some c \<Rightarrow> Inr c)"

definition depends_verify_token ::
  "request \<Rightarrow> log \<Rightarrow> (string \<Rightarrow> log \<times> response) \<Rightarrow> log \<times> response" where
  "depends_verify_token req lg body =
     (case security req of
        Inl r \<Rightarrow> (lg, Rejected r)
      | Inr creds \<Rightarrow>
          (case verify_token creds of
             Inl e \<Rightarrow> (lg, Raised e)
           | Inr token \<Rightarrow> body token))"

subsection \<open>Dispatch\<close>

fun call_endpoint :: "endpoint \<Rightarrow> log \<Rightarrow> request \<Rightarrow> log \<times> response" where
  "call_endpoint Root lg req = (lg, Returned (Dict root))"
| "call_endpoint Health_check lg req = (lg, Returned (Dict health_check))"
| "call_endpoint Create_user lg req =
     depends_verify_token req lg (\<lambda>token.
       case req_body req of
         None \<Rightarrow> (lg, Rejected (Request_validation [(''body'', Missing)]))
       | Some (username, email) \<Rightarrow>
           (case UserCreate_validate username email of
              Inl errs \<Rightarrow> (lg, Rejected (Request_validation errs))
            | Inr user \<Rightarrow>
                (let (lg', r) = create_user user token lg in (lg', Returned (Model r)))))"
| "call_endpoint Get_user lg req =
     depends_verify_token req lg (\<lambda>token.
       case req_user_id req of
         None \<Rightarrow> (lg, Rejected (Request_validation [(''user_id'', Missing)]))
       | Some user_id \<Rightarrow>
           (case get_user user_id token of
              Inl e \<Rightarrow> (lg, Raised e)
            | Inr r \<Rightarrow> (lg, Returned (Model r))))"
| "call_endpoint Swagger_ui lg req = (lg, Returned (Documentation Swagger_ui))"
| "call_endpoint Redoc lg req = (lg, Returned (Documentation Redoc))"

definition lookup_route :: "http_method \<Rightarrow> string \<Rightarrow> endpoint option" where
  "lookup_route m p =
     (case find (\<lambda>r. route_key r = (m, p)) app_routes of
        None \<Rightarrow> None
      | Some r \<Rightarrow> Some (snd (snd r)))"

definition app :: "log \<Rightarrow> request \<Rightarrow> log \<times> response" where
  "app lg req =
     (case lookup_route (req_method req) (req_path req) of
        None \<Rightarrow> (lg, Rejected Not_found)
      | Some ep \<Rightarrow> call_endpoint ep lg req)"

text \<open>A run of the service: the requests are answered one after the other on one log.\<close>

fun serve :: "log \<Rightarrow> request list \<Rightarrow> log \<times> response list" where
  "serve lg [] = (lg, [])"
| "serve lg (req # reqs) =
     (let (lg', resp) = app lg req;
          (lg'', resps) = serve lg' reqs
      in (lg'', resp # resps))"

section \<open>Auxiliary lemmas\<close>

subsection \<open>The matcher\<close>







lemma UserCreate_validate_value:
  "UserCreate_validate username email = Inr u \<Longrightarrow> u = \<lparr>uc_username = username, uc_email = email\<rparr>"
  by (auto simp: UserCreate_validate_def split: list.splits)

subsection \<open>Dependencies and dispatch\<close>

lemma lookup_route_cases:
  "lookup_route m p =
     (if (m, p) = (GET, ''/docs'') then Some Swagger_ui
      else if (m, p) = (GET, ''/redoc'') then Some Redoc
      else if (m, p) = (GET, ''/'') then Some Root
      else if (m, p) = (GET, ''/health'') then Some Health_check
      else if (m, p) = (POST, ''/users'') then Some Create_user
      else if (m, p) = (GET, ''/users/{user_id}'') then Some Get_user
      else None)"
  unfolding lookup_route_def app_routes_def documentation_routes_def app_settings_def
    decorated_routes_def route_key_def
  by simp

lemma verify_token_eq:
  "verify_token c =
     (if credentials c = ''valid-token'' then Inr ''valid-token''
      else Inl \<lparr>status_code = 401, detail = ''Invalid authentication credentials'',
                headers = Some [(''WWW-Authenticate'', ''Bearer'')]\<rparr>)"
  by (simp add: verify_token_def verify_token_guard_def HTTP_401_UNAUTHORIZED_def Let_def)


lemma depends_good_token:
  "req_credentials req = Some c \<Longrightarrow> credentials c = ''valid-token'' \<Longrightarrow>
   depends_verify_token req lg body = body ''valid-token''"
  by (simp add: depends_verify_token_def security_def verify_token_eq)

lemma logger_info_eq: "logger_info msg lg = lg @ [(INFO, msg)]"
  by (simp add: logger_info_def basicConfig_level_def)

lemma call_endpoint_response: "snd (call_endpoint ep lg req) = snd (call_endpoint ep lg' req)"
  by (cases ep)
    (auto simp: depends_verify_token_def create_user_def Let_def
      split: sum.splits option.splits prod.splits)

lemma app_response: "snd (app lg req) = snd (app lg' req)"
  by (simp add: app_def call_endpoint_response split: option.splits)

lemma serve_responses: "snd (serve lg reqs) = map (\<lambda>r. snd (app lg0 r)) reqs"
proof (induction reqs arbitrary: lg)
  case Nil
  show ?case by simp
next
  case (Cons req reqs)
  obtain lg1 resp where a: "app lg req = (lg1, resp)" by (cases "app lg req")
  obtain lg2 resps where s: "serve lg1 reqs = (lg2, resps)" by (cases "serve lg1 reqs")
  have "resp = snd (app lg0 req)" using a app_response [of lg req lg0] by simp
  moreover have "resps = map (\<lambda>r. snd (app lg0 r)) reqs" using s Cons.IH [of lg1] by simp
  ultimately show ?case using a s by simp
qed

lemma serve_last: "last (snd (serve lg (earlier @ [req]))) = snd (app lg0 req)"
  by (simp add: serve_responses [of lg _ lg0])


section \<open>The claims\<close>

subsection \<open>The token check\<close>

text \<open>
  C1. \<^verbatim>\<open>verify_token\<close> raises an \<^verbatim>\<open>HTTPException\<close> with status 401 and the header
  \<^verbatim>\<open>WWW-Authenticate: Bearer\<close> if and only if the presented token is not the string
  \<^verbatim>\<open>valid-token\<close>; for that token it raises nothing and returns the token unchanged.
\<close>

theorem verify_token_raises_iff:
  "((\<exists>e. verify_token creds = Inl e) \<longleftrightarrow> credentials creds \<noteq> ''valid-token'') \<and>
   verify_token creds =
     (if credentials creds \<noteq> ''valid-token'' then
        Inl \<lparr>status_code = 401, detail = ''Invalid authentication credentials'',
             headers = Some [(''WWW-Authenticate'', ''Bearer'')]\<rparr>
      else Inr (credentials creds))"
  by (simp add: verify_token_eq)

text \<open>
  C10. The guard of line 49, \<^verbatim>\<open>not token or token != "valid-token"\<close>, holds for exactly the
  tokens for which the single comparison \<^verbatim>\<open>token != "valid-token"\<close> holds: the empty string
  already differs from the hard-coded token.
\<close>

theorem verify_token_guard_redundant_disjunct:
  "verify_token_guard token = simple_guard token \<and> simple_guard []"
  by (auto simp: verify_token_guard_def simple_guard_def)

subsection \<open>The schemas\<close>


subsection \<open>The routes\<close>



text \<open>
  C7. \<^verbatim>\<open>GET /\<close> always returns the body \<^verbatim>\<open>{"message": "Welcome to DevHub API"}\<close> and
  \<^verbatim>\<open>GET /health\<close> always returns \<^verbatim>\<open>{"status": "healthy", "service": "devhub-api"}\<close>:
  whatever the other parts of the request (headers, credentials) are, whatever the log
  holds and whatever requests were served before. The log is left as it was.
\<close>

theorem root_and_health_constant:
  "app lg (req\<lparr>req_method := GET, req_path := ''/''\<rparr>) =
     (lg, Returned (Dict [(''message'', ''Welcome to DevHub API'')])) \<and>
   app lg (req\<lparr>req_method := GET, req_path := ''/health''\<rparr>) =
     (lg, Returned (Dict [(''status'', ''healthy''), (''service'', ''devhub-api'')])) \<and>
   last (snd (serve lg (earlier @ [req\<lparr>req_method := GET, req_path := ''/''\<rparr>]))) =
     Returned (Dict [(''message'', ''Welcome to DevHub API'')]) \<and>
   last (snd (serve lg (earlier @ [req\<lparr>req_method := GET, req_path := ''/health''\<rparr>]))) =
     Returned (Dict [(''status'', ''healthy''), (''service'', ''devhub-api'')])"
proof -
  have r: "app lg' (req\<lparr>req_method := GET, req_path := ''/''\<rparr>) =
     (lg', Returned (Dict [(''message'', ''Welcome to DevHub API'')]))" for lg'
    by (simp add: app_def lookup_route_cases root_def)
  have h: "app lg' (req\<lparr>req_method := GET, req_path := ''/health''\<rparr>) =
     (lg', Returned (Dict [(''status'', ''healthy''), (''service'', ''devhub-api'')]))" for lg'
    by (simp add: app_def lookup_route_cases health_check_def)
  show ?thesis
    by (simp add: r h serve_last [of lg earlier _ lg])
qed



subsection \<open>The handlers\<close>

text \<open>
  C8. For every integer \<^verbatim>\<open>user_id\<close>, \<^verbatim>\<open>get_user\<close> raises the exception with status 400 and
  detail \<^verbatim>\<open>Invalid user ID\<close> if and only if \<^verbatim>\<open>user_id <= 0\<close>; otherwise it returns the
  response with that id, the username \<^verbatim>\<open>john_doe\<close> and the email \<^verbatim>\<open>john@example.com\<close>. The
  same holds for the whole route on a request with the valid token.
\<close>

theorem get_user_invalid_id_iff:
  "((\<exists>e. get_user user_id token = Inl e) \<longleftrightarrow> user_id \<le> 0) \<and>
   get_user user_id token =
     (if user_id \<le> 0 then
        Inl \<lparr>status_code = 400, detail = ''Invalid user ID'', headers = None\<rparr>
      else Inr \<lparr>ur_id = user_id, ur_username = ''john_doe'', ur_email = ''john@example.com''\<rparr>) \<and>
   app lg (req\<lparr>req_method := GET, req_path := ''/users/{user_id}'',
                req_credentials := Some \<lparr>scheme = sch, credentials = ''valid-token''\<rparr>,
                req_user_id := Some user_id\<rparr>) =
     (lg, if user_id \<le> 0 then
            Raised \<lparr>status_code = 400, detail = ''Invalid user ID'', headers = None\<rparr>
          else Returned (Model \<lparr>ur_id = user_id, ur_username = ''john_doe'',
                                ur_email = ''john@example.com''\<rparr>))"
  by (simp add: get_user_def HTTP_400_BAD_REQUEST_def app_def lookup_route_cases
      depends_good_token)

text \<open>
  C9. For every body that \<^verbatim>\<open>UserCreate\<close> accepts, \<^verbatim>\<open>POST /users\<close> with the valid token
  returns a \<^verbatim>\<open>UserResponse\<close> with the username and the email of the input, unchanged, and
  the id 1; the handler logs one line.
\<close>

theorem create_user_echoes_input:
  assumes "UserCreate_validate username email = Inr user"
  shows "create_user user token lg =
           (lg @ [(INFO, ''Creating user: '' @ username)],
            \<lparr>ur_id = 1, ur_username = username, ur_email = email\<rparr>) \<and>
         app lg (req\<lparr>req_method := POST, req_path := ''/users'',
                      req_credentials := Some \<lparr>scheme = sch, credentials = ''valid-token''\<rparr>,
                      req_body := Some (username, email)\<rparr>) =
           (lg @ [(INFO, ''Creating user: '' @ username)],
            Returned (Model \<lparr>ur_id = 1, ur_username = username, ur_email = email\<rparr>))"
proof -
  from assms have u: "user = \<lparr>uc_username = username, uc_email = email\<rparr>"
    by (rule UserCreate_validate_value)
  have c: "create_user user token' lg =
      (lg @ [(INFO, ''Creating user: '' @ username)],
       \<lparr>ur_id = 1, ur_username = username, ur_email = email\<rparr>)" for token'
    by (simp add: create_user_def logger_info_eq u)
  show ?thesis
    using assms c by (simp add: app_def lookup_route_cases depends_good_token)
qed

text \<open>C9, at a concrete input: the user \<^verbatim>\<open>alice\<close> with the email \<^verbatim>\<open>alice@example.com\<close>.\<close>

theorem create_user_echoes_input_witness:
  "UserCreate_validate ''alice'' ''alice@example.com'' =
     Inr \<lparr>uc_username = ''alice'', uc_email = ''alice@example.com''\<rparr> \<and>
   app [] \<lparr>req_method = POST, req_path = ''/users'', req_headers = [],
           req_credentials = Some \<lparr>scheme = ''Bearer'', credentials = ''valid-token''\<rparr>,
           req_user_id = None, req_body = Some (''alice'', ''alice@example.com'')\<rparr> =
     ([(INFO, ''Creating user: alice'')],
      Returned (Model \<lparr>ur_id = 1, ur_username = ''alice'', ur_email = ''alice@example.com''\<rparr>))"
proof -
  have v: "UserCreate_validate ''alice'' ''alice@example.com'' =
      Inr \<lparr>uc_username = ''alice'', uc_email = ''alice@example.com''\<rparr>"
    by (simp add: UserCreate_validate_def validate_str_def too_short_def too_long_def
        regex_fails_def username_field_def email_field_def re_match_def email_regex_def)
  show ?thesis
    using v create_user_echoes_input [OF v, where token = "''valid-token''" and lg = "[]"
        and sch = "''Bearer''"
        and req = "\<lparr>req_method = POST, req_path = ''/users'', req_headers = [],
          req_credentials = None, req_user_id = None, req_body = None\<rparr>"]
    by simp
qed

text \<open>
  C2, as stated, fails: with the valid token the dependency succeeds, and \<^verbatim>\<open>get_user\<close> then
  raises an exception of its own for the id 0.
\<close>

theorem get_user_raises_after_dependencies:
  "verify_token \<lparr>scheme = ''Bearer'', credentials = ''valid-token''\<rparr> = Inr ''valid-token'' \<and>
   get_user 0 ''valid-token'' =
     Inl \<lparr>status_code = 400, detail = ''Invalid user ID'', headers = None\<rparr> \<and>
   app [] \<lparr>req_method = GET, req_path = ''/users/{user_id}'', req_headers = [],
           req_credentials = Some \<lparr>scheme = ''Bearer'', credentials = ''valid-token''\<rparr>,
           req_user_id = Some 0, req_body = None\<rparr> =
     ([], Raised \<lparr>status_code = 400, detail = ''Invalid user ID'', headers = None\<rparr>)"
  by (simp add: verify_token_eq get_user_def HTTP_400_BAD_REQUEST_def app_def
      lookup_route_cases depends_good_token)

text \<open>
  C2, amended. The application answers with an exception of the module in exactly two
  cases: the 401 of \<^verbatim>\<open>verify_token\<close>, on a protected route with a token that is not
  \<^verbatim>\<open>valid-token\<close>, and the 400 of \<^verbatim>\<open>get_user\<close>, with the valid token and
  \<^verbatim>\<open>user_id <= 0\<close>. So after its dependencies have succeeded no handler but \<^verbatim>\<open>get_user\<close>
  raises.
\<close>

theorem raised_exceptions_characterised:
  "snd (app lg req) = Raised e \<longleftrightarrow>
     ((req_method req, req_path req) \<in> {(POST, ''/users''), (GET, ''/users/{user_id}'')} \<and>
        (\<exists>c. req_credentials req = Some c \<and> credentials c \<noteq> ''valid-token'') \<and>
        e = \<lparr>status_code = 401, detail = ''Invalid authentication credentials'',
              headers = Some [(''WWW-Authenticate'', ''Bearer'')]\<rparr>) \<or>
     ((req_method req, req_path req) = (GET, ''/users/{user_id}'') \<and>
        (\<exists>c. req_credentials req = Some c \<and> credentials c = ''valid-token'') \<and>
        (\<exists>user_id. req_user_id req = Some user_id \<and> user_id \<le> 0) \<and>
        e = \<lparr>status_code = 400, detail = ''Invalid user ID'', headers = None\<rparr>)"
  unfolding app_def lookup_route_cases
  by (auto simp: depends_verify_token_def security_def verify_token_eq get_user_def
      HTTP_400_BAD_REQUEST_def create_user_def Let_def
      split: option.splits sum.splits prod.splits if_splits)

text \<open>
  C6. The response to a request does not depend on the log, the only state the handlers
  touch, nor on the requests served before: two runs on the same request give the same
  response, and the responses of a run are those of its requests taken one by one.
\<close>

theorem responses_history_independent:
  "snd (app lg req) = snd (app lg' req) \<and>
   last (snd (serve lg (earlier @ [req]))) = last (snd (serve lg' (earlier' @ [req]))) \<and>
   snd (serve lg reqs) = map (\<lambda>r. snd (app [] r)) reqs \<and>
   snd (create_user user token lg) = snd (create_user user token lg')"
proof -
  have "snd (app lg req) = snd (app lg' req)"
    by (rule app_response)
  moreover have "last (snd (serve lg (earlier @ [req]))) =
      last (snd (serve lg' (earlier' @ [req])))"
    by (simp add: serve_last [of _ _ _ "[]"])
  moreover have "snd (serve lg reqs) = map (\<lambda>r. snd (app [] r)) reqs"
    by (rule serve_responses)
  moreover have "snd (create_user user token lg) = snd (create_user user token lg')"
    by (simp add: create_user_def Let_def)
  ultimately show ?thesis by simp
qed

end
